theory Spec2Isabelle
  imports Complex_Main
begin

section \<open>The DOM fragment the containers read\<close>

text \<open>
  Both \<^verbatim>\<open>container/ReactFlow\<close> files read three things of an element: its
  \<^verbatim>\<open>dataset\<close> (the \<^verbatim>\<open>data-eltype\<close>, \<^verbatim>\<open>data-nodedata\<close> and
  \<^verbatim>\<open>data-edgedata\<close> attributes, each a string or \<^verbatim>\<open>undefined\<close>), its
  \<^verbatim>\<open>parentElement\<close> (an element or \<^verbatim>\<open>null\<close>), and its identity
  (\<^verbatim>\<open>node.parentElement === listeningEl\<close>). An element is therefore a value
  carrying an identity \<open>elid\<close>, its dataset and its parent; the ancestor chain of a DOM
  element is finite, which the datatype gives.
\<close>

record dataset =
  eltype :: "string option"
  nodedata :: "string option"
  edgedata :: "string option"

datatype element =
  Element (elid: nat) (dataset: dataset) (parentElement: "element option")

text \<open>\<^verbatim>\<open>a === b\<close> on two elements compares identities.\<close>

definition same_element :: "element \<Rightarrow> element \<Rightarrow> bool" where
  "same_element a b = (elid a = elid b)"

text \<open>
  JavaScript truthiness of a \<^verbatim>\<open>string | undefined\<close>: \<^verbatim>\<open>undefined\<close> and the
  empty string are falsy.
\<close>

fun truthy :: "string option \<Rightarrow> bool" where
  "truthy None = False"
| "truthy (Some s) = (s \<noteq> [])"

text \<open>A React mouse event, as far as the handlers read it.\<close>

record mouse_event =
  target :: element
  currentTarget :: element

text \<open>
  \<^verbatim>\<open>JSON.parse\<close> throws a \<^verbatim>\<open>SyntaxError\<close> on a malformed string. It is a
  parameter \<open>parse\<close> of the handlers below, \<open>None\<close> standing for the throw; the parsed
  record is of an arbitrary type \<open>'r\<close>.
\<close>

datatype error = SyntaxError

section \<open>The first container: helpers that log to the console\<close>

datatype 'r console_arg =
  LogString "string option"
| LogElement "element option"
| LogRecord 'r

type_synonym 'r console = "'r console_arg list list"

text \<open>
  \<^verbatim>\<open>findNodeOrEdge\<close> of the first container (it calls \<^verbatim>\<open>console.log\<close> twice):
  the result is paired with the lines written to the console, in order.
\<close>

function findNodeOrEdge_old :: "element \<Rightarrow> element \<Rightarrow> 'r console \<times> element option" where
  "findNodeOrEdge_old node listeningEl =
     (let elType = eltype (dataset node) in
      if truthy elType then ([[LogString elType]], Some node)
      else
        (case parentElement node of
           None \<Rightarrow> ([[LogString elType], [LogElement None]], None)
         | Some p \<Rightarrow>
             if same_element p listeningEl
             then ([[LogString elType], [LogElement (Some p)]], None)
             else
               (let (out, r) = findNodeOrEdge_old p listeningEl
                in ([LogString elType] # [LogElement (Some p)] # out, r))))"
  by pat_completeness auto
termination
proof (relation "measure (\<lambda>(node, listeningEl). size node)")
  fix node listeningEl :: element and p
  assume "parentElement node = Some p"
  then have "size p < size node" by (cases node) simp
  then show "((p, listeningEl), (node, listeningEl)) \<in> measure (\<lambda>(node, listeningEl). size node)"
    by simp
qed simp

text \<open>
  A handler's outcome: the exception it threw, or the callbacks it invoked, in order.
  \<open>NodeCallback h ev r\<close> records that the function \<open>h\<close> passed as \<^verbatim>\<open>nodeCallback\<close>
  was called with the event and the parsed record.
\<close>

datatype ('h, 'r) call =
  NodeCallback 'h mouse_event 'r
| EdgeCallback 'h mouse_event 'r

text \<open>
  The block both branches of the handlers share,
  \<^verbatim>\<open>if (data.dataset.nodedata) { const node = JSON.parse(data.dataset.nodedata);
  console.log('NODE', node); nodeCallback(event, node); }\<close>:
  nothing happens on a missing or empty attribute, \<^verbatim>\<open>JSON.parse\<close> may throw, and
  otherwise the record is logged under \<open>label\<close> and the callback called. The
  attribute is only read behind its truthiness test and a callback is only called behind
  its test \<^verbatim>\<open>nodeCallback !== undefined\<close>, so \<open>the\<close> below is never applied to
  \<open>None\<close>.
\<close>

definition parse_log_call ::
  "(string \<Rightarrow> 'r option) \<Rightarrow> string option \<Rightarrow> string \<Rightarrow> ('r \<Rightarrow> 'c)
     \<Rightarrow> 'r console \<times> (error + 'c list)" where
  "parse_log_call parse attr label callback =
     (if truthy attr then
        (case parse (the attr) of
           None \<Rightarrow> ([], Inl SyntaxError)
         | Some r \<Rightarrow> ([[LogString (Some label), LogRecord r]], Inr [callback r]))
      else ([], Inr []))"

definition eventHandlersDecorator_old ::
  "(string \<Rightarrow> 'r option) \<Rightarrow> 'h option \<Rightarrow> 'h option \<Rightarrow> mouse_event
     \<Rightarrow> 'r console \<times> (error + ('h, 'r) call list)" where
  "eventHandlersDecorator_old parse nodeCallback edgeCallback event =
     (if nodeCallback = None \<and> edgeCallback = None then ([], Inr [])
      else
        (let (out, data) = findNodeOrEdge_old (target event) (currentTarget event);
             out1 = out @ [[LogString (Some ''DATA''), LogElement data]]
         in case data of
              None \<Rightarrow> (out1, Inr [])
            | Some d \<Rightarrow>
                (let elType = eltype (dataset d) in
                 if elType = Some ''node'' \<and> nodeCallback \<noteq> None then
                   (let (out2, r) = parse_log_call parse (nodedata (dataset d)) ''NODE''
                                      (NodeCallback (the nodeCallback) event)
                    in (out1 @ out2, r))
                 else if elType = Some ''edge'' \<and> edgeCallback \<noteq> None then
                   (let (out2, r) = parse_log_call parse (edgedata (dataset d)) ''EDGE:''
                                      (EdgeCallback (the edgeCallback) event)
                    in (out1 @ out2, r))
                 else (out1, Inr []))))"

section \<open>The second container: the same helpers without logging\<close>

function findNodeOrEdge :: "element \<Rightarrow> element \<Rightarrow> element option" where
  "findNodeOrEdge node listeningEl =
     (let elType = eltype (dataset node) in
      if truthy elType then Some node
      else
        (case parentElement node of
           None \<Rightarrow> None
         | Some p \<Rightarrow>
             if same_element p listeningEl then None
             else findNodeOrEdge p listeningEl))"
  by pat_completeness auto
termination
proof (relation "measure (\<lambda>(node, listeningEl). size node)")
  fix node listeningEl :: element and p
  assume "parentElement node = Some p"
  then have "size p < size node" by (cases node) simp
  then show "((p, listeningEl), (node, listeningEl)) \<in> measure (\<lambda>(node, listeningEl). size node)"
    by simp
qed simp

text \<open>
  The same block without logging:
  \<^verbatim>\<open>if (data.dataset.nodedata) { const node = JSON.parse(data.dataset.nodedata);
  nodeCallback(event, node); }\<close>.
\<close>

definition parse_call ::
  "(string \<Rightarrow> 'r option) \<Rightarrow> string option \<Rightarrow> ('r \<Rightarrow> 'c list) \<Rightarrow> error + 'c list" where
  "parse_call parse attr body =
     (if truthy attr then
        (case parse (the attr) of None \<Rightarrow> Inl SyntaxError | Some r \<Rightarrow> Inr (body r))
      else Inr [])"

definition eventHandlersDecorator ::
  "(string \<Rightarrow> 'r option) \<Rightarrow> 'h option \<Rightarrow> 'h option \<Rightarrow> mouse_event
     \<Rightarrow> error + ('h, 'r) call list" where
  "eventHandlersDecorator parse nodeCallback edgeCallback event =
     (if nodeCallback = None \<and> edgeCallback = None then Inr []
      else
        (case findNodeOrEdge (target event) (currentTarget event) of
           None \<Rightarrow> Inr []
         | Some d \<Rightarrow>
             (let elType = eltype (dataset d) in
              if elType = Some ''node'' \<and> nodeCallback \<noteq> None then
                parse_call parse (nodedata (dataset d))
                  (\<lambda>node. [NodeCallback (the nodeCallback) event node])
              else if elType = Some ''edge'' \<and> edgeCallback \<noteq> None then
                parse_call parse (edgedata (dataset d))
                  (\<lambda>edge. [EdgeCallback (the edgeCallback) event edge])
              else Inr [])))"

text \<open>
  The second container wraps the click handler: a user-supplied \<^verbatim>\<open>onClick\<close> is called
  first, then \<^verbatim>\<open>onElClick\<close> (the decorated node and edge click callbacks). The first
  container passes \<^verbatim>\<open>onElClick\<close> itself as \<^verbatim>\<open>onClick\<close>. \<open>dispatched\<close> keeps the
  node and edge callbacks among the calls of the wrapped handler.
\<close>

datatype ('h, 'r) click_call =
  OnClick 'h mouse_event
| OnElClick "('h, 'r) call"

fun dispatched :: "('h, 'r) click_call list \<Rightarrow> ('h, 'r) call list" where
  "dispatched [] = []"
| "dispatched (OnElClick c # cs) = c # dispatched cs"
| "dispatched (OnClick h ev # cs) = dispatched cs"

definition onClk ::
  "(string \<Rightarrow> 'r option) \<Rightarrow> 'h option \<Rightarrow> 'h option \<Rightarrow> 'h option \<Rightarrow> mouse_event
     \<Rightarrow> ('h, 'r) click_call list \<times> (error + unit)" where
  "onClk parse onClick onNodeClick onEdgeClick event =
     (let first = (case onClick of None \<Rightarrow> [] | Some h \<Rightarrow> [OnClick h event])
      in case eventHandlersDecorator parse onNodeClick onEdgeClick event of
           Inl e \<Rightarrow> (first, Inl e)
         | Inr cs \<Rightarrow> (first @ map OnElClick cs, Inr ()))"

subsection \<open>What the dispatch is compared with\<close>

text \<open>
  The proper ancestors of an element, nearest first, and the elements
  \<^verbatim>\<open>findNodeOrEdge\<close> looks at: the event target, then its ancestors up to, and without,
  the first one that is the listening element.
\<close>

function ancestors :: "element \<Rightarrow> element list" where
  "ancestors node =
     (case parentElement node of None \<Rightarrow> [] | Some p \<Rightarrow> p # ancestors p)"
  by pat_completeness auto
termination
proof (relation "measure size")
  fix node :: element and p
  assume "parentElement node = Some p"
  then have "size p < size node" by (cases node) simp
  then show "(p, node) \<in> measure size" by simp
qed simp





section \<open>The second container: hover dispatch\<close>

text \<open>
  The state \<^verbatim>\<open>currentHovered\<close> (\<^verbatim>\<open>useState\<close>): the kind and the parsed record of
  the element whose enter callback fired last, both \<^verbatim>\<open>null\<close> initially.
\<close>

record 'r hovered =
  elType :: "string option"
  el :: "'r option"

text \<open>
  What a hover handler does, in order: the callbacks it calls and the state it sets. A
  leave callback receives \<^verbatim>\<open>currentHovered.el\<close>, which is \<^verbatim>\<open>null\<close> or a record.
\<close>

datatype ('h, 'r) hover_effect =
  NodeEnter 'h mouse_event 'r
| EdgeEnter 'h mouse_event 'r
| NodeLeave 'h mouse_event "'r option"
| EdgeLeave 'h mouse_event "'r option"
| SetCurrentHovered "'r hovered"

text \<open>
  \<^verbatim>\<open>decoratedEventHandler\<close> of \<^verbatim>\<open>hoverEventHandlersDecorator\<close>, with the value of
  \<^verbatim>\<open>currentHovered\<close> its closure holds. \<open>rid\<close> reads the \<^verbatim>\<open>id\<close> of a parsed
  record (parsed records are objects, as their types \<^verbatim>\<open>Node\<close> and \<^verbatim>\<open>Edge\<close> say),
  and \<^verbatim>\<open>currentHovered?.el?.id\<close> is \<open>map_option rid (el cur)\<close>.
\<close>

definition hoverEventHandlersDecorator ::
  "('r \<Rightarrow> 'i) \<Rightarrow> (string \<Rightarrow> 'r option) \<Rightarrow> 'r hovered
     \<Rightarrow> 'h option \<Rightarrow> 'h option \<Rightarrow> 'h option \<Rightarrow> 'h option \<Rightarrow> mouse_event
     \<Rightarrow> error + ('h, 'r) hover_effect list" where
  "hoverEventHandlersDecorator rid parse cur
       nodeEnterCallback edgeEnterCallback nodeLeaveCallback edgeLeaveCallback event =
     (if nodeEnterCallback = None \<and> edgeEnterCallback = None then Inr []
      else
        (case findNodeOrEdge (target event) (currentTarget event) of
           None \<Rightarrow>
             (if edgeLeaveCallback \<noteq> None \<and> elType cur = Some ''edge'' then
                Inr [EdgeLeave (the edgeLeaveCallback) event (el cur),
                     SetCurrentHovered \<lparr>elType = None, el = None\<rparr>]
              else if nodeLeaveCallback \<noteq> None \<and> elType cur = Some ''node'' then
                Inr [NodeLeave (the nodeLeaveCallback) event (el cur),
                     SetCurrentHovered \<lparr>elType = None, el = None\<rparr>]
              else Inr [])
         | Some d \<Rightarrow>
             (let elType' = eltype (dataset d) in
              if elType' = Some ''node'' \<and> nodeEnterCallback \<noteq> None then
                parse_call parse (nodedata (dataset d))
                  (\<lambda>node.
                     (if elType' \<noteq> elType cur \<and> edgeLeaveCallback \<noteq> None \<and> el cur \<noteq> None then
                        [EdgeLeave (the edgeLeaveCallback) event (el cur)]
                      else if el cur \<noteq> None \<and> Some (rid node) \<noteq> map_option rid (el cur)
                              \<and> nodeLeaveCallback \<noteq> None then
                        [NodeLeave (the nodeLeaveCallback) event (el cur)]
                      else [])
                     @ [SetCurrentHovered \<lparr>elType = elType', el = Some node\<rparr>,
                        NodeEnter (the nodeEnterCallback) event node])
              else if elType' = Some ''edge'' \<and> edgeEnterCallback \<noteq> None then
                parse_call parse (edgedata (dataset d))
                  (\<lambda>edge.
                     (if el cur \<noteq> None \<and> elType' \<noteq> elType cur \<and> nodeLeaveCallback \<noteq> None then
                        [NodeLeave (the nodeLeaveCallback) event (el cur)]
                      else if el cur \<noteq> None \<and> Some (rid edge) \<noteq> map_option rid (el cur)
                              \<and> edgeLeaveCallback \<noteq> None then
                        [EdgeLeave (the edgeLeaveCallback) event (el cur)]
                      else [])
                     @ [SetCurrentHovered \<lparr>elType = elType', el = Some edge\<rparr>,
                        EdgeEnter (the edgeEnterCallback) event edge])
              else Inr [])))"

subsection \<open>The component around the hover handler\<close>

text \<open>
  \<^verbatim>\<open>useCallback(fn, deps)\<close> returns the function of an earlier render while every
  dependency is identical to that render's, and \<open>fn\<close> otherwise. \<open>memo\<close> is what the hook
  kept from the render before (\<open>None\<close> on the first render).
\<close>

definition useCallback :: "'f \<Rightarrow> 'd \<Rightarrow> ('f \<times> 'd) option \<Rightarrow> 'f \<times> 'd" where
  "useCallback fn deps memo =
     (case memo of
        None \<Rightarrow> (fn, deps)
      | Some (fn0, deps0) \<Rightarrow> if deps0 = deps then (fn0, deps0) else (fn, deps))"

text \<open>The four hover props of the container; a function is known by its identity \<open>'h\<close>.\<close>

record 'h hover_props =
  onNodeMouseEnter :: "'h option"
  onEdgeMouseEnter :: "'h option"
  onNodeMouseLeave :: "'h option"
  onEdgeMouseLeave :: "'h option"

text \<open>
  The closure \<^verbatim>\<open>hoverEventHandlersDecorator(onNodeMouseEnter, onEdgeMouseEnter,
  onNodeMouseLeave, onEdgeMouseLeave)\<close> creates in a render: the four callbacks it was
  given and the \<^verbatim>\<open>currentHovered\<close> of that render. (The decorator itself is wrapped in
  \<^verbatim>\<open>useCallback\<close> with \<^verbatim>\<open>currentHovered\<close> among its dependencies, so it always holds
  the state of the render that calls it.)
\<close>

record ('h, 'r) hover_closure =
  closure_props :: "'h hover_props"
  closure_currentHovered :: "'r hovered"

text \<open>
  What persists between renders of the container: the state \<^verbatim>\<open>currentHovered\<close> and the
  memo of \<^verbatim>\<open>onElMouseEnter = useCallback(hoverEventHandlersDecorator(..),
  [onNodeMouseEnter, onEdgeMouseEnter])\<close>.
\<close>

record ('h, 'r) container =
  currentHovered :: "'r hovered"
  onElMouseEnter :: "(('h, 'r) hover_closure \<times> ('h option \<times> 'h option)) option"

definition initial_container :: "('h, 'r) container" where
  "initial_container =
     \<lparr>currentHovered = \<lparr>elType = None, el = None\<rparr>, onElMouseEnter = None\<rparr>"

definition render :: "'h hover_props \<Rightarrow> ('h, 'r) container \<Rightarrow> ('h, 'r) container" where
  "render props c =
     c\<lparr>onElMouseEnter :=
         Some (useCallback
                 \<lparr>closure_props = props, closure_currentHovered = currentHovered c\<rparr>
                 (onNodeMouseEnter props, onEdgeMouseEnter props)
                 (onElMouseEnter c))\<rparr>"

text \<open>The state after a handler ran: the value of its last \<^verbatim>\<open>setCurrentHovered\<close>.\<close>

fun apply_effects :: "('h, 'r) hover_effect list \<Rightarrow> 'r hovered \<Rightarrow> 'r hovered" where
  "apply_effects [] h = h"
| "apply_effects (SetCurrentHovered h' # es) h = apply_effects es h'"
| "apply_effects (_ # es) h = apply_effects es h"

text \<open>
  A \<^verbatim>\<open>mouseover\<close> event reaching the container's \<^verbatim>\<open>onMouseOver\<close>: the memoised
  handler runs with what its closure holds.
\<close>

definition onMouseOver ::
  "('r \<Rightarrow> 'i) \<Rightarrow> (string \<Rightarrow> 'r option) \<Rightarrow> mouse_event \<Rightarrow> ('h, 'r) container
     \<Rightarrow> error + (('h, 'r) hover_effect list \<times> ('h, 'r) container)" where
  "onMouseOver rid parse event c =
     (case onElMouseEnter c of
        None \<Rightarrow> Inr ([], c)
      | Some (cl, deps) \<Rightarrow>
          (case hoverEventHandlersDecorator rid parse (closure_currentHovered cl)
                  (onNodeMouseEnter (closure_props cl)) (onEdgeMouseEnter (closure_props cl))
                  (onNodeMouseLeave (closure_props cl)) (onEdgeMouseLeave (closure_props cl))
                  event of
             Inl e \<Rightarrow> Inl e
           | Inr es \<Rightarrow> Inr (es, c\<lparr>currentHovered := apply_effects es (currentHovered c)\<rparr>)))"

text \<open>
  A session: before each event the container is rendered with the props it is given
  then (the same props when only its own state changed), and the event is dispatched.
\<close>

fun mouseOvers ::
  "('r \<Rightarrow> 'i) \<Rightarrow> (string \<Rightarrow> 'r option) \<Rightarrow> ('h hover_props \<times> mouse_event) list
     \<Rightarrow> ('h, 'r) container \<Rightarrow> error + (('h, 'r) hover_effect list \<times> ('h, 'r) container)" where
  "mouseOvers rid parse [] c = Inr ([], c)"
| "mouseOvers rid parse ((props, event) # rest) c =
     (case onMouseOver rid parse event (render props c) of
        Inl e \<Rightarrow> Inl e
      | Inr (es, c') \<Rightarrow>
          (case mouseOvers rid parse rest c' of
             Inl e \<Rightarrow> Inl e
           | Inr (es', c'') \<Rightarrow> Inr (es @ es', c'')))"

subsection \<open>Example documents\<close>

text \<open>
  A flow whose container holds two node wrappers (as \<^verbatim>\<open>NodeWrapper\<close> renders them,
  with \<^verbatim>\<open>data-eltype="node"\<close> and the serialized node in \<^verbatim>\<open>data-nodedata\<close>), the
  first with a label element inside. In the examples the parsed record of a serialized
  string is the string itself (\<open>parse = Some\<close>) and its id is the string (\<open>rid = id\<close>).
\<close>

definition no_data :: dataset where
  "no_data = \<lparr>eltype = None, nodedata = None, edgedata = None\<rparr>"

definition flow_container :: element where
  "flow_container = Element 10 no_data None"

definition node_a :: element where
  "node_a =
     Element 11 \<lparr>eltype = Some ''node'', nodedata = Some ''a'', edgedata = None\<rparr>
       (Some flow_container)"

definition node_a_label :: element where
  "node_a_label = Element 12 no_data (Some node_a)"

definition node_b :: element where
  "node_b =
     Element 13 \<lparr>eltype = Some ''node'', nodedata = Some ''b'', edgedata = None\<rparr>
       (Some flow_container)"

definition over_node_a :: mouse_event where
  "over_node_a = \<lparr>target = node_a_label, currentTarget = flow_container\<rparr>"

definition over_node_b :: mouse_event where
  "over_node_b = \<lparr>target = node_b, currentTarget = flow_container\<rparr>"





text \<open>Hover props whose four functions keep their identities from render to render.\<close>

definition stable_props :: "nat hover_props" where
  "stable_props =
     \<lparr>onNodeMouseEnter = Some 1, onEdgeMouseEnter = Some 2,
      onNodeMouseLeave = Some 3, onEdgeMouseLeave = Some 4\<rparr>"

section \<open>The container's configuration props\<close>

text \<open>
  Both container files destructure the props with the same defaults and hand the same
  values on to \<^verbatim>\<open>GraphView\<close> and \<^verbatim>\<open>StoreUpdater\<close>; one embedding stands for both.
  A prop the caller leaves out is \<^verbatim>\<open>undefined\<close> (\<open>None\<close>), and a destructuring default
  applies exactly then. Numbers are reals. A \<^verbatim>\<open>CoordinateExtent\<close> is only handed on and
  never read by the container, so its type \<open>'x\<close> is left open; \<^verbatim>\<open>infiniteExtent\<close>
  (imported from \<^verbatim>\<open>store/initialState\<close>, not part of these files) is a parameter.
\<close>

datatype ConnectionMode = Strict | Loose

datatype SelectionMode = Partial | Full

type_synonym XYPosition = "real \<times> real"

record Viewport =
  viewport_x :: real
  viewport_y :: real
  zoom :: real

definition initNodeOrigin :: "real \<times> real" where
  "initNodeOrigin = (0, 0)"

definition initSnapGrid :: "real \<times> real" where
  "initSnapGrid = (15, 15)"

definition initDefaultViewport :: Viewport where
  "initDefaultViewport = \<lparr>viewport_x = 0, viewport_y = 0, zoom = 1\<rparr>"

text \<open>The recognized configuration options among the props of \<^verbatim>\<open>ReactFlow\<close>.\<close>

record 'x ReactFlowProps =
  connectionMode :: "ConnectionMode option"
  selectionMode :: "SelectionMode option"
  snapToGrid :: "bool option"
  snapGrid :: "(real \<times> real) option"
  nodeOrigin :: "(real \<times> real) option"
  defaultViewport :: "Viewport option"
  minZoom :: "real option"
  maxZoom :: "real option"
  translateExtent :: "'x option"
  nodeExtent :: "'x option"
  connectionRadius :: "real option"

text \<open>What \<^verbatim>\<open>GraphView\<close> and \<^verbatim>\<open>StoreUpdater\<close> receive of them.\<close>

record 'x GraphViewProps =
  gv_selectionMode :: SelectionMode
  gv_defaultViewport :: Viewport
  gv_translateExtent :: 'x
  gv_minZoom :: real
  gv_maxZoom :: real
  gv_nodeOrigin :: "real \<times> real"
  gv_nodeExtent :: "'x option"

record 'x StoreUpdaterProps =
  su_minZoom :: real
  su_maxZoom :: real
  su_nodeExtent :: "'x option"
  su_snapToGrid :: bool
  su_snapGrid :: "real \<times> real"
  su_connectionMode :: ConnectionMode
  su_translateExtent :: 'x
  su_nodeOrigin :: "real \<times> real"
  su_connectionRadius :: real

text \<open>A destructuring default, \<^verbatim>\<open>{ minZoom = 0.5 }\<close>.\<close>

fun orDefault :: "'a option \<Rightarrow> 'a \<Rightarrow> 'a" where
  "orDefault None d = d"
| "orDefault (Some v) d = v"

definition ReactFlow :: "'x \<Rightarrow> 'x ReactFlowProps \<Rightarrow> 'x GraphViewProps \<times> 'x StoreUpdaterProps" where
  "ReactFlow infiniteExtent props =
     (let connectionMode' = orDefault (connectionMode props) Strict;
          selectionMode' = orDefault (selectionMode props) Full;
          snapToGrid' = orDefault (snapToGrid props) False;
          snapGrid' = orDefault (snapGrid props) initSnapGrid;
          nodeOrigin' = orDefault (nodeOrigin props) initNodeOrigin;
          defaultViewport' = orDefault (defaultViewport props) initDefaultViewport;
          minZoom' = orDefault (minZoom props) 0.5;
          maxZoom' = orDefault (maxZoom props) 2;
          translateExtent' = orDefault (translateExtent props) infiniteExtent;
          connectionRadius' = orDefault (connectionRadius props) 20
      in (\<lparr>gv_selectionMode = selectionMode',
           gv_defaultViewport = defaultViewport',
           gv_translateExtent = translateExtent',
           gv_minZoom = minZoom',
           gv_maxZoom = maxZoom',
           gv_nodeOrigin = nodeOrigin',
           gv_nodeExtent = nodeExtent props\<rparr>,
          \<lparr>su_minZoom = minZoom',
           su_maxZoom = maxZoom',
           su_nodeExtent = nodeExtent props,
           su_snapToGrid = snapToGrid',
           su_snapGrid = snapGrid',
           su_connectionMode = connectionMode',
           su_translateExtent = translateExtent',
           su_nodeOrigin = nodeOrigin',
           su_connectionRadius = connectionRadius'\<rparr>))"

text \<open>The invariant of the viewport: its zoom lies between the two bounds.\<close>

definition zoom_in_bounds :: "real \<Rightarrow> real \<Rightarrow> Viewport \<Rightarrow> bool" where
  "zoom_in_bounds lo hi v = (lo \<le> zoom v \<and> zoom v \<le> hi)"

text \<open>Configurations: nothing supplied, and bounds supplied in the wrong order.\<close>

definition default_configuration :: "unit ReactFlowProps" where
  "default_configuration =
     \<lparr>connectionMode = None, selectionMode = None, snapToGrid = None, snapGrid = None,
      nodeOrigin = None, defaultViewport = None, minZoom = None, maxZoom = None,
      translateExtent = None, nodeExtent = None, connectionRadius = None\<rparr>"


definition zoomed_in_configuration :: "unit ReactFlowProps" where
  "zoomed_in_configuration =
     default_configuration
       \<lparr>defaultViewport := Some \<lparr>viewport_x = 0, viewport_y = 0, zoom = 5\<rparr>\<rparr>"

section \<open>The node wrapper\<close>

text \<open>
  \<^verbatim>\<open>components/Nodes/wrapNode\<close>: the component \<^verbatim>\<open>NodeWrapper\<close> around a custom node
  component. The node's \<^verbatim>\<open>data\<close> has the open type \<open>'d\<close>.
\<close>

datatype Position = Left | Top | Right | Bottom

text \<open>
  A CSS value of the \<^verbatim>\<open>style\<close> object; the template string
  \<^verbatim>\<open>translate(${xPosOrigin}px,${yPosOrigin}px)\<close> is kept as its two numbers.
\<close>

datatype css_value =
  CssNumber real
| CssString string
| CssTranslate real real

record 'd WrapNodeProps =
  id' :: string
  type' :: string
  data :: 'd
  xPos :: real
  yPos :: real
  xPosOrigin :: real
  yPosOrigin :: real
  selected :: bool
  style :: "string \<rightharpoonup> css_value"
  className :: "string option"
  isDraggable :: bool
  isSelectable :: bool
  isConnectable :: bool
  isFocusable :: bool
  selectNodesOnDrag :: bool
  sourcePosition :: "Position option"
  targetPosition :: "Position option"
  hidden :: bool
  dragHandle :: "string option"
  zIndex :: real
  isParent :: bool
  noDragClassName :: string
  noPanClassName :: string
  initialized :: bool
  disableKeyboardA11y :: bool
  ariaLabel :: "string option"
  rfId :: string

text \<open>A keyboard event, as far as \<^verbatim>\<open>onKeyDown\<close> and \<^verbatim>\<open>isInputDOMNode\<close> read it.\<close>

record keyboard_event =
  key :: string
  shiftKey :: bool
  key_target :: element

text \<open>The argument of the hook \<^verbatim>\<open>useDrag\<close> (without the ref to the DOM node).\<close>

record UseDragParams =
  disabled :: bool
  ud_noDragClassName :: string
  handleSelector :: "string option"
  nodeId :: string
  ud_isSelectable :: bool
  ud_selectNodesOnDrag :: bool

text \<open>
  What the wrapper imports from files that are not part of the source: the hook
  \<^verbatim>\<open>useDrag\<close> (it returns whether the node is being dragged), \<^verbatim>\<open>dataToAttribute\<close>,
  \<^verbatim>\<open>isInputDOMNode\<close> and \<^verbatim>\<open>elementSelectionKeys\<close> of \<^verbatim>\<open>utils\<close>, and
  \<^verbatim>\<open>ARIA_NODE_DESC_KEY\<close>. They are parameters; \<open>'n\<close> is the store's type of a node.
\<close>

record 'n wrapNode_imports =
  useDrag :: "UseDragParams \<Rightarrow> bool"
  dataToAttribute :: "'n option \<Rightarrow> string \<Rightarrow> string option"
  isInputDOMNode :: "keyboard_event \<Rightarrow> bool"
  elementSelectionKeys :: "string list"
  ARIA_NODE_DESC_KEY :: string

subsection \<open>Keyboard handling\<close>

definition arrowKeyDiffs :: "(string \<times> XYPosition) list" where
  "arrowKeyDiffs =
     [(''ArrowUp'', (0, -1)),
      (''ArrowDown'', (0, 1)),
      (''ArrowLeft'', (-1, 0)),
      (''ArrowRight'', (1, 0))]"

text \<open>
  \<^verbatim>\<open>~~x\<close>: the number truncated towards zero and wrapped to a signed 32-bit integer.
\<close>

definition toInt32 :: "real \<Rightarrow> int" where
  "toInt32 r =
     (let t = (if r < 0 then \<lceil>r\<rceil> else \<lfloor>r\<rfloor>)
      in (t + 2 ^ 31) mod 2 ^ 32 - 2 ^ 31)"

text \<open>\<^verbatim>\<open>s.replace(pattern, replacement)\<close> with a string pattern: the first occurrence.\<close>

fun replace :: "string \<Rightarrow> string \<Rightarrow> string \<Rightarrow> string" where
  "replace [] pattern replacement = (if pattern = [] then replacement else [])"
| "replace (c # cs) pattern replacement =
     (if take (length pattern) (c # cs) = pattern
      then replacement @ drop (length pattern) (c # cs)
      else c # replace cs pattern replacement)"

text \<open>\<^verbatim>\<open>s.toLowerCase()\<close> on ASCII letters.\<close>

definition toLowerCase :: "string \<Rightarrow> string" where
  "toLowerCase s =
     map (\<lambda>c. if 65 \<le> (of_char c :: nat) \<and> (of_char c :: nat) \<le> 90
              then char_of (of_char c + 32 :: nat) else c) s"

text \<open>
  What \<^verbatim>\<open>onKeyDown\<close> does: \<^verbatim>\<open>handleNodeClick({id, store, unselect, nodeRef})\<close>,
  \<^verbatim>\<open>store.setState({ariaLiveMessage: `Moved selected node ${..}. New position, x: ${..},
  y: ${..}`})\<close> (kept as the three interpolated values), and
  \<^verbatim>\<open>updatePositions({x, y, isShiftPressed})\<close>.
\<close>

datatype keydown_effect =
  HandleNodeClick string bool
| SetAriaLiveMessage string int int
| UpdatePositions real real bool

definition onKeyDown :: "'n wrapNode_imports \<Rightarrow> 'd WrapNodeProps \<Rightarrow> keyboard_event \<Rightarrow> keydown_effect list" where
  "onKeyDown env props event =
     (if isInputDOMNode env event then []
      else if key event \<in> set (elementSelectionKeys env) \<and> isSelectable props then
        [HandleNodeClick (id' props) (key event = ''Escape'')]
      else if \<not> disableKeyboardA11y props \<and> isDraggable props \<and> selected props
              \<and> map_of arrowKeyDiffs (key event) \<noteq> None then
        [SetAriaLiveMessage (toLowerCase (replace (key event) ''Arrow'' ''''))
           (toInt32 (xPos props)) (toInt32 (yPos props)),
         UpdatePositions (fst (the (map_of arrowKeyDiffs (key event))))
           (snd (the (map_of arrowKeyDiffs (key event)))) (shiftKey event)]
      else [])"

text \<open>
  A key pressed on the wrapper's element: \<^verbatim>\<open>onKeyDown={isFocusable ? onKeyDown :
  undefined}\<close>.
\<close>

definition keyDown :: "'n wrapNode_imports \<Rightarrow> 'd WrapNodeProps \<Rightarrow> keyboard_event \<Rightarrow> keydown_effect list" where
  "keyDown env props event = (if isFocusable props then onKeyDown env props event else [])"

text \<open>The calls of \<^verbatim>\<open>updatePositions\<close> among the effects.\<close>

fun position_updates :: "keydown_effect list \<Rightarrow> (XYPosition \<times> bool) list" where
  "position_updates [] = []"
| "position_updates (UpdatePositions dx dy shift # es) = ((dx, dy), shift) # position_updates es"
| "position_updates (_ # es) = position_updates es"

subsection \<open>Rendering\<close>

text \<open>
  \<^verbatim>\<open>classcat\<close>: the names of an array of strings and objects, joined by single spaces;
  an object gives the keys whose values are truthy, and an empty result is skipped.
\<close>

datatype cc_arg =
  CcString string
| CcObject "(string \<times> bool) list"
| CcUndefined

fun cc_join :: "string \<Rightarrow> string \<Rightarrow> string" where
  "cc_join out name = out @ (if out = [] then [] else '' '') @ name"

fun cc_arg_names :: "cc_arg \<Rightarrow> string" where
  "cc_arg_names (CcString s) = s"
| "cc_arg_names (CcObject kvs) = foldl (\<lambda>out (k, v). if v then cc_join out k else out) [] kvs"
| "cc_arg_names CcUndefined = []"

definition cc :: "cc_arg list \<Rightarrow> string" where
  "cc names =
     foldl (\<lambda>out a. if cc_arg_names a \<noteq> [] then cc_join out (cc_arg_names a) else out) [] names"

text \<open>The props the wrapper passes to the custom \<^verbatim>\<open>NodeComponent\<close>.\<close>

record 'd NodeProps =
  np_id :: string
  np_data :: 'd
  np_type :: string
  np_xPos :: real
  np_yPos :: real
  np_selected :: bool
  np_isConnectable :: bool
  np_sourcePosition :: "Position option"
  np_targetPosition :: "Position option"
  np_dragging :: bool
  np_dragHandle :: "string option"
  np_zIndex :: real

text \<open>
  The element the wrapper renders: the attributes of the \<^verbatim>\<open>div\<close>, the value of the
  id context provider, and the props of the node component inside.
\<close>

record 'd NodeWrapperElement =
  div_className :: string
  div_style :: "string \<rightharpoonup> css_value"
  div_data_id :: string
  div_data_testid :: string
  div_onKeyDown :: bool
  div_tabIndex :: "nat option"
  div_role :: "string option"
  div_aria_describedby :: "string option"
  div_aria_label :: "string option"
  div_data_nodedata :: "string option"
  div_data_eltype :: string
  provider_value :: string
  nodeComponent :: "'d NodeProps"

definition NodeWrapper ::
  "'n wrapNode_imports \<Rightarrow> (string \<rightharpoonup> 'n) \<Rightarrow> 'd WrapNodeProps \<Rightarrow> 'd NodeWrapperElement option" where
  "NodeWrapper env nodeInternals props =
     (let hasPointerEvents = (isSelectable props \<or> isDraggable props);
          dragging = useDrag env
            \<lparr>disabled = (hidden props \<or> \<not> isDraggable props),
             ud_noDragClassName = noDragClassName props,
             handleSelector = dragHandle props,
             nodeId = id' props,
             ud_isSelectable = isSelectable props,
             ud_selectNodesOnDrag = selectNodesOnDrag props\<rparr>
      in if hidden props then None
         else
           (let node = nodeInternals (id' props);
                nodeDataProps = dataToAttribute env node ''node''
            in Some
              \<lparr>div_className =
                 cc [CcString ''react-flow__node'',
                     CcString (''react-flow__node-'' @ type' props),
                     CcObject [(noPanClassName props, isDraggable props)],
                     (case className props of None \<Rightarrow> CcUndefined | Some c \<Rightarrow> CcString c),
                     CcObject [(''selected'', selected props),
                               (''selectable'', isSelectable props),
                               (''parent'', isParent props),
                               (''dragging'', dragging)]],
               div_style =
                 [''zIndex'' \<mapsto> CssNumber (zIndex props),
                  ''transform'' \<mapsto> CssTranslate (xPosOrigin props) (yPosOrigin props),
                  ''pointerEvents'' \<mapsto> CssString (if hasPointerEvents then ''all'' else ''none''),
                  ''visibility'' \<mapsto> CssString (if initialized props then ''visible'' else ''hidden'')]
                 ++ style props,
               div_data_id = id' props,
               div_data_testid = ''rf__node-'' @ id' props,
               div_onKeyDown = isFocusable props,
               div_tabIndex = (if isFocusable props then Some 0 else None),
               div_role = (if isFocusable props then Some ''button'' else None),
               div_aria_describedby =
                 (if disableKeyboardA11y props then None
                  else Some (ARIA_NODE_DESC_KEY env @ ''-'' @ rfId props)),
               div_aria_label = ariaLabel props,
               div_data_nodedata = nodeDataProps,
               div_data_eltype = ''node'',
               provider_value = id' props,
               nodeComponent =
                 \<lparr>np_id = id' props,
                  np_data = data props,
                  np_type = type' props,
                  np_xPos = xPos props,
                  np_yPos = yPos props,
                  np_selected = selected props,
                  np_isConnectable = isConnectable props,
                  np_sourcePosition = sourcePosition props,
                  np_targetPosition = targetPosition props,
                  np_dragging = dragging,
                  np_dragHandle = dragHandle props,
                  np_zIndex = zIndex props\<rparr>\<rparr>))"

text \<open>
  The rendered element without the two places the node's data is forwarded to: the
  \<^verbatim>\<open>data\<close> prop of the node component and the serialized \<^verbatim>\<open>data-nodedata\<close>.
\<close>

definition without_data :: "'d NodeWrapperElement \<Rightarrow> unit NodeWrapperElement" where
  "without_data e =
     \<lparr>div_className = div_className e,
      div_style = div_style e,
      div_data_id = div_data_id e,
      div_data_testid = div_data_testid e,
      div_onKeyDown = div_onKeyDown e,
      div_tabIndex = div_tabIndex e,
      div_role = div_role e,
      div_aria_describedby = div_aria_describedby e,
      div_aria_label = div_aria_label e,
      div_data_nodedata = None,
      div_data_eltype = div_data_eltype e,
      provider_value = provider_value e,
      nodeComponent =
        \<lparr>np_id = np_id (nodeComponent e),
         np_data = (),
         np_type = np_type (nodeComponent e),
         np_xPos = np_xPos (nodeComponent e),
         np_yPos = np_yPos (nodeComponent e),
         np_selected = np_selected (nodeComponent e),
         np_isConnectable = np_isConnectable (nodeComponent e),
         np_sourcePosition = np_sourcePosition (nodeComponent e),
         np_targetPosition = np_targetPosition (nodeComponent e),
         np_dragging = np_dragging (nodeComponent e),
         np_dragHandle = np_dragHandle (nodeComponent e),
         np_zIndex = np_zIndex (nodeComponent e)\<rparr>\<rparr>"

section \<open>The store operations the wrapper calls\<close>

text \<open>
  The graph node of the specification's data model (section 3), with the fields the two
  operations below read: the position is relative to the parent for a parented node, the
  origin is the fractional anchor within the node's box, and the measured dimensions are
  absent until reported.
\<close>

datatype extent =
  ExtentNone
| ExtentParent
| ExtentBox "XYPosition \<times> XYPosition"

record graph_node =
  node_id :: string
  position :: XYPosition
  origin :: XYPosition
  measured :: "(real \<times> real) option"
  parentId :: "string option"
  node_extent :: extent
  draggable :: bool
  node_selected :: bool

definition node_map :: "graph_node list \<Rightarrow> (string \<rightharpoonup> graph_node)" where
  "node_map nodes = map_of (map (\<lambda>n. (node_id n, n)) nodes)"

definition clamp :: "real \<Rightarrow> real \<Rightarrow> real \<Rightarrow> real" where
  "clamp val lo hi = min (max val lo) hi"

definition clampPosition :: "XYPosition \<Rightarrow> XYPosition \<times> XYPosition \<Rightarrow> XYPosition" where
  "clampPosition pos box =
     (clamp (fst pos) (fst (fst box)) (fst (snd box)),
      clamp (snd pos) (snd (fst box)) (snd (snd box)))"

text \<open>
  The box an extent stands for: none, the explicit box, or the measured box of the
  parent (in the parent's own coordinates, which the node's position is relative to).
\<close>

definition extent_box :: "(string \<rightharpoonup> graph_node) \<Rightarrow> graph_node \<Rightarrow> (XYPosition \<times> XYPosition) option" where
  "extent_box nodes n =
     (case node_extent n of
        ExtentNone \<Rightarrow> None
      | ExtentBox b \<Rightarrow> Some b
      | ExtentParent \<Rightarrow>
          (case parentId n of
             None \<Rightarrow> None
           | Some pid \<Rightarrow>
               (case nodes pid of
                  None \<Rightarrow> None
                | Some parent \<Rightarrow>
                    (case measured parent of
                       None \<Rightarrow> None
                     | Some (w, h) \<Rightarrow> Some ((0, 0), (w, h))))))"

definition clamp_to_extent :: "(string \<rightharpoonup> graph_node) \<Rightarrow> graph_node \<Rightarrow> XYPosition \<Rightarrow> XYPosition" where
  "clamp_to_extent nodes n pos =
     (case extent_box nodes n of None \<Rightarrow> pos | Some box \<Rightarrow> clampPosition pos box)"

text \<open>
  Modelled from the spec: \<^verbatim>\<open>updateNodePositions\<close>. The hook
  \<^verbatim>\<open>useUpdateNodePositions\<close>, whose result the wrapper calls as \<^verbatim>\<open>updatePositions\<close>,
  and the store are not part of the source files. Section 4.1 of the specification:
  it "applies position deltas to the currently dragged node and, if multiple selected,
  to every other selected draggable node identically; clamps each resulting position to
  its extent; emits a position change batch". \<open>dragged\<close> is the id of the dragged node
  (for a key press, the focused node); the result is the nodes and the batch of position
  changes.
\<close>

definition moves :: "string \<Rightarrow> graph_node \<Rightarrow> bool" where
  "moves dragged n = (node_id n = dragged \<or> (node_selected n \<and> draggable n))"

definition updateNodePositions ::
  "XYPosition \<Rightarrow> string \<Rightarrow> graph_node list \<Rightarrow> graph_node list \<times> (string \<times> XYPosition) list" where
  "updateNodePositions delta dragged nodes =
     (let moved = (\<lambda>n. clamp_to_extent (node_map nodes) n
                          (fst (position n) + fst delta, snd (position n) + snd delta))
      in (map (\<lambda>n. if moves dragged n then n\<lparr>position := moved n\<rparr> else n) nodes,
          map (\<lambda>n. (node_id n, moved n)) (filter (moves dragged) nodes)))"

subsection \<open>Example node and graph\<close>

definition example_imports :: "unit wrapNode_imports" where
  "example_imports =
     \<lparr>useDrag = (\<lambda>_. False),
      dataToAttribute = (\<lambda>_ _. None),
      isInputDOMNode = (\<lambda>_. False),
      elementSelectionKeys = [''Enter'', '' '', ''Escape''],
      ARIA_NODE_DESC_KEY = ''react-flow__node-desc''\<rparr>"

definition example_props :: "nat WrapNodeProps" where
  "example_props =
     \<lparr>id' = ''1'', type' = ''default'', data = 7, xPos = 10, yPos = 20,
      xPosOrigin = 10, yPosOrigin = 20, selected = True, style = Map.empty,
      className = None, isDraggable = True, isSelectable = True, isConnectable = True,
      isFocusable = True, selectNodesOnDrag = True, sourcePosition = Some Bottom,
      targetPosition = Some Top, hidden = False, dragHandle = None, zIndex = 0,
      isParent = False, noDragClassName = ''nodrag'', noPanClassName = ''nopan'',
      initialized = True, disableKeyboardA11y = False, ariaLabel = None, rfId = ''1''\<rparr>"

definition arrow_up :: keyboard_event where
  "arrow_up = \<lparr>key = ''ArrowUp'', shiftKey = False, key_target = node_a\<rparr>"

definition example_graph :: "graph_node list" where
  "example_graph =
     [\<lparr>node_id = ''1'', position = (10, 20), origin = (0, 0), measured = Some (100, 40), parentId = None,
       node_extent = ExtentNone, draggable = True, node_selected = True\<rparr>,
      \<lparr>node_id = ''2'', position = (300, 0), origin = (0, 0), measured = Some (100, 40), parentId = None,
       node_extent = ExtentNone, draggable = True, node_selected = True\<rparr>,
      \<lparr>node_id = ''3'', position = (0, 200), origin = (0, 0), measured = None, parentId = None,
       node_extent = ExtentNone, draggable = True, node_selected = False\<rparr>]"

subsection \<open>Reporting measured dimensions\<close>
















section \<open>The step edge router\<close>

text \<open>
  Modelled from the spec: \<^verbatim>\<open>getSmoothStepPath\<close> and the step edge. The source files
  only re-export them from \<^verbatim>\<open>components/Edges\<close>, which is not among them. Section 4.3
  of the specification: the input is the source point and facing, the target point and
  facing, and the configuration; the output is an ordered list of points and a label
  anchor. The router "uses a fixed decision table keyed by (source facing, target
  facing) to choose between a zero-bend, one-bend, or two-bend path, selecting the
  bend(s) so the path always departs/arrives along each handle's facing direction. When
  both handles face the same direction and are exactly aligned on the perpendicular
  axis, the router must collapse to a single straight segment. Smoothstep additionally
  rounds each bend with a configurable corner radius (radius 0 degenerates to Step).
  Label anchor defaults to the path midpoint by arc length." The specification does not
  list the sixteen entries of the table, so the table is a parameter.
\<close>

datatype bends = ZeroBend | OneBend | TwoBend

text \<open>A handle facing left or right leaves along the x axis; the other axis is y.\<close>

fun horizontal :: "Position \<Rightarrow> bool" where
  "horizontal Left = True"
| "horizontal Right = True"
| "horizontal Top = False"
| "horizontal Bottom = False"

definition aligned_on_perpendicular_axis :: "Position \<Rightarrow> XYPosition \<Rightarrow> XYPosition \<Rightarrow> bool" where
  "aligned_on_perpendicular_axis facing src tgt =
     (if horizontal facing then snd src = snd tgt else fst src = fst tgt)"

text \<open>
  The bends of a path that leaves the source along its facing axis and reaches the
  target along the target's (\<open>src\<close> and \<open>tgt\<close> are the two handle points).
\<close>

definition one_bend :: "Position \<Rightarrow> XYPosition \<Rightarrow> XYPosition \<Rightarrow> XYPosition list" where
  "one_bend srcFacing src tgt =
     (if horizontal srcFacing then [(fst tgt, snd src)]
      else [(fst src, snd tgt)])"

definition two_bends :: "Position \<Rightarrow> XYPosition \<Rightarrow> XYPosition \<Rightarrow> XYPosition list" where
  "two_bends srcFacing src tgt =
     (if horizontal srcFacing
      then [((fst src + fst tgt) / 2, snd src), ((fst src + fst tgt) / 2, snd tgt)]
      else [(fst src, (snd src + snd tgt) / 2), (fst tgt, (snd src + snd tgt) / 2)])"

text \<open>The point at a given arc length along a polyline that starts at \<open>p\<close>.\<close>

definition segment_length :: "XYPosition \<Rightarrow> XYPosition \<Rightarrow> real" where
  "segment_length p q = sqrt ((fst q - fst p)\<^sup>2 + (snd q - snd p)\<^sup>2)"

fun path_length :: "XYPosition \<Rightarrow> XYPosition list \<Rightarrow> real" where
  "path_length p [] = 0"
| "path_length p (q # rest) = segment_length p q + path_length q rest"

fun point_at :: "real \<Rightarrow> XYPosition \<Rightarrow> XYPosition list \<Rightarrow> XYPosition" where
  "point_at d p [] = p"
| "point_at d p (q # rest) =
     (let l = segment_length p q
      in if d \<le> l then
           (if l = 0 then p
            else (fst p + d / l * (fst q - fst p), snd p + d / l * (snd q - snd p)))
         else point_at (d - l) q rest)"

record step_path =
  path_points :: "XYPosition list"
  corner_radius :: real
  label_anchor :: XYPosition

definition getSmoothStepPath ::
  "(Position \<Rightarrow> Position \<Rightarrow> bends) \<Rightarrow> XYPosition \<Rightarrow> Position \<Rightarrow> XYPosition \<Rightarrow> Position \<Rightarrow> real
     \<Rightarrow> step_path" where
  "getSmoothStepPath table src srcFacing tgt tgtFacing borderRadius =
     (let between =
            (if srcFacing = tgtFacing
                \<and> aligned_on_perpendicular_axis srcFacing src tgt then []
             else
               (case table srcFacing tgtFacing of
                  ZeroBend \<Rightarrow> []
                | OneBend \<Rightarrow> one_bend srcFacing src tgt
                | TwoBend \<Rightarrow> two_bends srcFacing src tgt))
      in \<lparr>path_points = src # between @ [tgt],
          corner_radius = borderRadius,
          label_anchor =
            point_at (path_length src (between @ [tgt]) / 2) src (between @ [tgt])\<rparr>)"

text \<open>The step edge is the smooth step edge with corner radius 0.\<close>

definition getStepPath ::
  "(Position \<Rightarrow> Position \<Rightarrow> bends) \<Rightarrow> XYPosition \<Rightarrow> Position \<Rightarrow> XYPosition \<Rightarrow> Position \<Rightarrow> step_path" where
  "getStepPath table src srcFacing tgt tgtFacing =
     getSmoothStepPath table src srcFacing tgt tgtFacing 0"

text \<open>A table that bends twice for every pair of facings.\<close>

definition always_two_bends :: "Position \<Rightarrow> Position \<Rightarrow> bends" where
  "always_two_bends srcFacing tgtFacing = TwoBend"

section \<open>Theorems: event dispatch\<close>

declare findNodeOrEdge.simps [simp del] findNodeOrEdge_old.simps [simp del]
  ancestors.simps [simp del]

lemma findNodeOrEdge_old_result:
  "snd (findNodeOrEdge_old node listeningEl) = findNodeOrEdge node listeningEl"
proof (induction node listeningEl rule: findNodeOrEdge.induct)
  case (1 node listeningEl)
  note unfold = findNodeOrEdge.simps [of node] findNodeOrEdge_old.simps [of node]
  show ?case
  proof (cases "truthy (eltype (dataset node))")
    case True
    then show ?thesis by (simp add: unfold)
  next
    case False
    note falsy = this
    show ?thesis
    proof (cases "parentElement node")
      case None
      with falsy show ?thesis by (simp add: unfold)
    next
      case (Some p)
      show ?thesis
      proof (cases "same_element p listeningEl")
        case True
        with falsy Some show ?thesis by (simp add: unfold)
      next
        case False
        with falsy Some "1.IH" [of "eltype (dataset node)" p]
        show ?thesis by (simp add: unfold split_beta)
      qed
    qed
  qed
qed

lemma parse_log_call_result:
  "snd (parse_log_call parse attr label callback) = parse_call parse attr (\<lambda>r. [callback r])"
  by (simp add: parse_log_call_def parse_call_def split: option.split)

lemma eventHandlersDecorator_old_result:
  fixes parse :: "string \<Rightarrow> 'r option"
  shows "snd (eventHandlersDecorator_old parse nodeCallback edgeCallback event) =
     eventHandlersDecorator parse nodeCallback edgeCallback event"
proof (cases "nodeCallback = None \<and> edgeCallback = None")
  case True
  then show ?thesis
    by (simp add: eventHandlersDecorator_old_def eventHandlersDecorator_def)
next
  case False
  obtain out data where old:
    "(findNodeOrEdge_old (target event) (currentTarget event)
        :: 'r console \<times> element option) = (out, data)"
    by (cases "findNodeOrEdge_old (target event) (currentTarget event)
                 :: 'r console \<times> element option")
  with findNodeOrEdge_old_result [of "target event" "currentTarget event", where ?'a = 'r]
  have new: "findNodeOrEdge (target event) (currentTarget event) = data" by simp
  show ?thesis
  proof (cases data)
    case None
    with False old new show ?thesis
      by (simp add: eventHandlersDecorator_old_def eventHandlersDecorator_def)
  next
    case (Some d)
    with False old new show ?thesis
      by (auto simp add: eventHandlersDecorator_old_def eventHandlersDecorator_def Let_def
          split_beta parse_log_call_result)
  qed
qed

lemma dispatched_map_OnElClick: "dispatched (map OnElClick cs) = cs"
  by (induction cs) simp_all

lemma onClk_dispatch:
  "dispatched (fst (onClk parse onClick nodeCallback edgeCallback event)) =
     (case eventHandlersDecorator parse nodeCallback edgeCallback event of
        Inl e \<Rightarrow> [] | Inr cs \<Rightarrow> cs)
   \<and> snd (onClk parse onClick nodeCallback edgeCallback event) =
     map_sum id (\<lambda>cs. ()) (eventHandlersDecorator parse nodeCallback edgeCallback event)"
  by (cases onClick; cases "eventHandlersDecorator parse nodeCallback edgeCallback event")
     (simp_all add: onClk_def dispatched_map_OnElClick)

text \<open>
  C1. The helpers of the two containers agree: on every element and listening element
  the logging \<^verbatim>\<open>findNodeOrEdge\<close> returns what the new one returns, and on every event
  the logging \<^verbatim>\<open>eventHandlersDecorator\<close> calls the same callback with the same parsed
  record (or throws the same error) as the new one; they differ in the console output
  only. The click handler of the second container, which calls a supplied
  \<^verbatim>\<open>onClick\<close> first, dispatches to the node and edge click callbacks as the first
  container's does.
\<close>

theorem old_new_dispatch_equal:
  fixes parse :: "string \<Rightarrow> 'r option"
  shows "snd (findNodeOrEdge_old node listeningEl :: 'r console \<times> element option) =
           findNodeOrEdge node listeningEl
         \<and> snd (eventHandlersDecorator_old parse nodeCallback edgeCallback event) =
           eventHandlersDecorator parse nodeCallback edgeCallback event
         \<and> dispatched (fst (onClk parse onClick nodeCallback edgeCallback event)) =
           (case snd (eventHandlersDecorator_old parse nodeCallback edgeCallback event) of
              Inl e \<Rightarrow> [] | Inr cs \<Rightarrow> cs)
         \<and> snd (onClk parse onClick nodeCallback edgeCallback event) =
           map_sum id (\<lambda>cs. ())
             (snd (eventHandlersDecorator_old parse nodeCallback edgeCallback event))"
  by (simp add: findNodeOrEdge_old_result eventHandlersDecorator_old_result onClk_dispatch)






lemmas flow_documents =
  no_data_def flow_container_def node_a_def node_a_label_def node_b_def
  over_node_a_def over_node_b_def



section \<open>Theorems: hover dispatch\<close>

text \<open>
  What the handler does when its closure holds the current state: moving from a node
  \<open>e\<close> to a different node \<open>n\<close> calls the node leave callback with \<open>e\<close>, records
  \<open>n\<close> and calls the node enter callback with \<open>n\<close>, in this order.
\<close>

lemma hover_node_to_node:
  assumes "findNodeOrEdge (target ev) (currentTarget ev) = Some d"
    and "eltype (dataset d) = Some ''node''"
    and "nodedata (dataset d) = Some s" and "s \<noteq> []" and "parse s = Some n"
    and "rid n \<noteq> rid e"
  shows "hoverEventHandlersDecorator rid parse \<lparr>elType = Some ''node'', el = Some e\<rparr>
           (Some ne) (Some ee) (Some nl) (Some el') ev =
         Inr [NodeLeave nl ev (Some e),
              SetCurrentHovered \<lparr>elType = Some ''node'', el = Some n\<rparr>,
              NodeEnter ne ev n]"
  using assms by (simp add: hoverEventHandlersDecorator_def parse_call_def)

text \<open>
  C3 fails on the container: \<^verbatim>\<open>onElMouseEnter\<close> is memoised on
  \<^verbatim>\<open>[onNodeMouseEnter, onEdgeMouseEnter]\<close> only, so while these two props keep their
  identities the handler in use is the one of the first render, whose closure holds the
  initial \<^verbatim>\<open>currentHovered\<close>. Moving the pointer from node \<open>a\<close> to node \<open>b\<close> with
  all four callbacks supplied calls the enter callback twice and the leave callback
  never; the state is set, but the closure in use still holds the initial value.
\<close>

theorem hover_stale_closure:
  "mouseOvers id Some [(stable_props, over_node_a), (stable_props, over_node_b)]
     initial_container =
   Inr ([SetCurrentHovered \<lparr>elType = Some ''node'', el = Some ''a''\<rparr>,
         NodeEnter 1 over_node_a ''a'',
         SetCurrentHovered \<lparr>elType = Some ''node'', el = Some ''b''\<rparr>,
         NodeEnter 1 over_node_b ''b''],
        \<lparr>currentHovered = \<lparr>elType = Some ''node'', el = Some ''b''\<rparr>,
         onElMouseEnter =
           Some (\<lparr>closure_props = stable_props,
                   closure_currentHovered = \<lparr>elType = None, el = None\<rparr>\<rparr>,
                 (Some 1, Some 2))\<rparr>)"
  by (simp add: initial_container_def render_def useCallback_def onMouseOver_def
      hoverEventHandlersDecorator_def findNodeOrEdge.simps parse_call_def same_element_def
      Let_def stable_props_def flow_documents)

text \<open>
  The same two events when the second render receives a new \<^verbatim>\<open>onNodeMouseEnter\<close>
  function: the handler is made anew, its closure holds node \<open>a\<close>, and the leave callback
  is called before the enter callback.
\<close>

lemma hover_fresh_closure:
  "map_sum id fst
     (mouseOvers id Some
        [(stable_props, over_node_a),
         (stable_props\<lparr>onNodeMouseEnter := Some 5\<rparr>, over_node_b)]
        initial_container) =
   Inr [SetCurrentHovered \<lparr>elType = Some ''node'', el = Some ''a''\<rparr>,
        NodeEnter 1 over_node_a ''a'',
        NodeLeave 3 over_node_b (Some ''a''),
        SetCurrentHovered \<lparr>elType = Some ''node'', el = Some ''b''\<rparr>,
        NodeEnter 5 over_node_b ''b'']"
  by (simp add: initial_container_def render_def useCallback_def onMouseOver_def
      hoverEventHandlersDecorator_def findNodeOrEdge.simps parse_call_def same_element_def
      Let_def stable_props_def flow_documents)

section \<open>Theorems: configuration\<close>

text \<open>
  C7. Every recognized configuration option is forwarded unchanged when supplied, and
  replaced by its default when omitted: \<^verbatim>\<open>connectionMode\<close> (Strict),
  \<^verbatim>\<open>connectionRadius\<close> (20), \<^verbatim>\<open>snapToGrid\<close> (false) and \<^verbatim>\<open>snapGrid\<close> ([15,15]) go
  to the store updater, \<^verbatim>\<open>selectionMode\<close> (Full) and \<^verbatim>\<open>defaultViewport\<close> to the graph
  view, and \<^verbatim>\<open>nodeOrigin\<close> ([0,0]), \<^verbatim>\<open>minZoom\<close> (0.5), \<^verbatim>\<open>maxZoom\<close> (2),
  \<^verbatim>\<open>translateExtent\<close> (the infinite extent) and \<^verbatim>\<open>nodeExtent\<close> (no default) to both.
\<close>

theorem ReactFlow_forwards_configuration:
  "su_connectionMode (snd (ReactFlow inf p)) =
     (case connectionMode p of None \<Rightarrow> Strict | Some v \<Rightarrow> v)
   \<and> su_connectionRadius (snd (ReactFlow inf p)) =
     (case connectionRadius p of None \<Rightarrow> 20 | Some v \<Rightarrow> v)
   \<and> gv_selectionMode (fst (ReactFlow inf p)) =
     (case selectionMode p of None \<Rightarrow> Full | Some v \<Rightarrow> v)
   \<and> gv_nodeOrigin (fst (ReactFlow inf p)) =
     (case nodeOrigin p of None \<Rightarrow> (0, 0) | Some v \<Rightarrow> v)
   \<and> su_nodeOrigin (snd (ReactFlow inf p)) = gv_nodeOrigin (fst (ReactFlow inf p))
   \<and> gv_minZoom (fst (ReactFlow inf p)) =
     (case minZoom p of None \<Rightarrow> 0.5 | Some v \<Rightarrow> v)
   \<and> su_minZoom (snd (ReactFlow inf p)) = gv_minZoom (fst (ReactFlow inf p))
   \<and> gv_maxZoom (fst (ReactFlow inf p)) =
     (case maxZoom p of None \<Rightarrow> 2 | Some v \<Rightarrow> v)
   \<and> su_maxZoom (snd (ReactFlow inf p)) = gv_maxZoom (fst (ReactFlow inf p))
   \<and> gv_translateExtent (fst (ReactFlow inf p)) =
     (case translateExtent p of None \<Rightarrow> inf | Some v \<Rightarrow> v)
   \<and> su_translateExtent (snd (ReactFlow inf p)) = gv_translateExtent (fst (ReactFlow inf p))
   \<and> gv_nodeExtent (fst (ReactFlow inf p)) = nodeExtent p
   \<and> su_nodeExtent (snd (ReactFlow inf p)) = nodeExtent p
   \<and> su_snapToGrid (snd (ReactFlow inf p)) =
     (case snapToGrid p of None \<Rightarrow> False | Some v \<Rightarrow> v)
   \<and> su_snapGrid (snd (ReactFlow inf p)) =
     (case snapGrid p of None \<Rightarrow> (15, 15) | Some v \<Rightarrow> v)"
  by (simp add: ReactFlow_def Let_def initNodeOrigin_def initSnapGrid_def
      split: option.split)


text \<open>
  A user-supplied \<^verbatim>\<open>defaultViewport\<close> is handed to the graph view as it is: with zoom 5
  and the default bounds, the viewport the graph view starts from is out of bounds.
\<close>

lemma ReactFlow_forwards_out_of_bounds_viewport:
  "\<not> zoom_in_bounds
       (gv_minZoom (fst (ReactFlow () zoomed_in_configuration)))
       (gv_maxZoom (fst (ReactFlow () zoomed_in_configuration)))
       (gv_defaultViewport (fst (ReactFlow () zoomed_in_configuration)))"
  by (simp add: ReactFlow_def Let_def zoomed_in_configuration_def
      default_configuration_def zoom_in_bounds_def)


section \<open>Theorems: the node wrapper\<close>

lemma eventHandlersDecorator_parametric:
  "map_sum id (map (map_call id f)) (eventHandlersDecorator parse ncb ecb ev) =
     eventHandlersDecorator (map_option f \<circ> parse) ncb ecb ev"
  by (cases "findNodeOrEdge (target ev) (currentTarget ev)")
     (auto simp: eventHandlersDecorator_def parse_call_def Let_def split: option.splits)

text \<open>
  C4. The wrapper never inspects the node's data. Two renders whose props differ in
  \<^verbatim>\<open>data\<close> only (with any two stores and any two serializers behind
  \<^verbatim>\<open>dataToAttribute\<close>) take the same path (both hidden or both rendered) and produce the
  same element apart from the forwarded \<^verbatim>\<open>data\<close> prop and the serialized
  \<^verbatim>\<open>data-nodedata\<close> attribute; a key press has the same effects; and the click dispatch
  hands the parsed record to the callback as it is (it commutes with any function on the
  record).
\<close>

theorem NodeWrapper_data_opaque:
  "map_option without_data (NodeWrapper env store1 (props\<lparr>data := d1\<rparr>)) =
     map_option without_data
       (NodeWrapper (env\<lparr>dataToAttribute := serialize2\<rparr>) store2 (props\<lparr>data := d2\<rparr>))
   \<and> map_option (\<lambda>e. np_data (nodeComponent e)) (NodeWrapper env store1 (props\<lparr>data := d1\<rparr>)) =
     (if hidden props then None else Some d1)
   \<and> map_option div_data_nodedata (NodeWrapper env store1 props) =
     (if hidden props then None else Some (dataToAttribute env (store1 (id' props)) ''node''))
   \<and> keyDown env (props\<lparr>data := d1\<rparr>) event = keyDown env (props\<lparr>data := d2\<rparr>) event
   \<and> map_sum id (map (map_call id f)) (eventHandlersDecorator parse ncb ecb ev) =
     eventHandlersDecorator (map_option f \<circ> parse) ncb ecb ev"
proof (intro conjI)
  show "map_option without_data (NodeWrapper env store1 (props\<lparr>data := d1\<rparr>)) =
     map_option without_data
       (NodeWrapper (env\<lparr>dataToAttribute := serialize2\<rparr>) store2 (props\<lparr>data := d2\<rparr>))"
    by (simp add: NodeWrapper_def without_data_def Let_def)
  show "map_option (\<lambda>e. np_data (nodeComponent e)) (NodeWrapper env store1 (props\<lparr>data := d1\<rparr>)) =
     (if hidden props then None else Some d1)"
    by (simp add: NodeWrapper_def Let_def)
  show "map_option div_data_nodedata (NodeWrapper env store1 props) =
     (if hidden props then None else Some (dataToAttribute env (store1 (id' props)) ''node''))"
    by (simp add: NodeWrapper_def Let_def)
  show "keyDown env (props\<lparr>data := d1\<rparr>) event = keyDown env (props\<lparr>data := d2\<rparr>) event"
    by (auto simp add: keyDown_def onKeyDown_def)
  show "map_sum id (map (map_call id f)) (eventHandlersDecorator parse ncb ecb ev) =
     eventHandlersDecorator (map_option f \<circ> parse) ncb ecb ev"
    by (rule eventHandlersDecorator_parametric)
qed

lemma arrowKeyDiffs_lookup:
  "map_of arrowKeyDiffs k =
     (if k = ''ArrowUp'' then Some (0, -1)
      else if k = ''ArrowDown'' then Some (0, 1)
      else if k = ''ArrowLeft'' then Some (-1, 0)
      else if k = ''ArrowRight'' then Some (1, 0)
      else None)"
  by (simp add: arrowKeyDiffs_def)

lemma keyDown_arrow:
  assumes "isFocusable p" and "selected p" and "isDraggable p" and "\<not> disableKeyboardA11y p"
    and "\<not> isInputDOMNode env ev"
    and "key ev \<notin> set (elementSelectionKeys env) \<or> \<not> isSelectable p"
    and "map_of arrowKeyDiffs (key ev) = Some d"
  shows "position_updates (keyDown env p ev) = [(d, shiftKey ev)]"
  using assms by (auto simp: keyDown_def onKeyDown_def)

lemma keyDown_other_key:
  assumes "map_of arrowKeyDiffs (key ev) = None"
  shows "position_updates (keyDown env p ev) = []"
  using assms by (simp add: keyDown_def onKeyDown_def)

lemma updateNodePositions_nth:
  assumes "i < length nodes"
  shows "fst (updateNodePositions delta dragged nodes) ! i =
     (if moves dragged (nodes ! i)
      then (nodes ! i)\<lparr>position :=
             clamp_to_extent (node_map nodes) (nodes ! i)
               (fst (position (nodes ! i)) + fst delta, snd (position (nodes ! i)) + snd delta)\<rparr>
      else nodes ! i)"
  using assms by (simp add: updateNodePositions_def Let_def)

text \<open>
  C5. On a focusable, selected, draggable node with keyboard accessibility enabled, a
  key press outside an input element, with a key that does not select (or on a node that
  is not selectable), calls \<^verbatim>\<open>updatePositions\<close> once, with the unit delta of the arrow
  key: ArrowUp (0,-1), ArrowDown (0,1), ArrowLeft (-1,0), ArrowRight (1,0). No key
  press with another key calls it, on any node. The position update of the
  specification then moves the dragged node and every selected draggable node: each
  takes its position plus this delta, clamped to its extent (exactly the position plus
  the delta for a node without extent), and every other node stays as it is.
\<close>

theorem arrow_key_unit_delta:
  "(isFocusable p \<and> selected p \<and> isDraggable p \<and> \<not> disableKeyboardA11y p
      \<and> \<not> isInputDOMNode env ev
      \<and> (key ev \<notin> set (elementSelectionKeys env) \<or> \<not> isSelectable p) \<longrightarrow>
      (key ev = ''ArrowUp'' \<longrightarrow> position_updates (keyDown env p ev) = [((0, -1), shiftKey ev)])
      \<and> (key ev = ''ArrowDown'' \<longrightarrow> position_updates (keyDown env p ev) = [((0, 1), shiftKey ev)])
      \<and> (key ev = ''ArrowLeft'' \<longrightarrow> position_updates (keyDown env p ev) = [((-1, 0), shiftKey ev)])
      \<and> (key ev = ''ArrowRight'' \<longrightarrow> position_updates (keyDown env p ev) = [((1, 0), shiftKey ev)]))
   \<and> (key ev' \<notin> {''ArrowUp'', ''ArrowDown'', ''ArrowLeft'', ''ArrowRight''} \<longrightarrow>
        position_updates (keyDown env' p' ev') = [])
   \<and> length (fst (updateNodePositions delta dragged nodes)) = length nodes
   \<and> (\<forall>i < length nodes.
        (moves dragged (nodes ! i) \<longrightarrow>
           fst (updateNodePositions delta dragged nodes) ! i =
             (nodes ! i)\<lparr>position :=
                clamp_to_extent (node_map nodes) (nodes ! i)
                  (fst (position (nodes ! i)) + fst delta,
                   snd (position (nodes ! i)) + snd delta)\<rparr>)
        \<and> (moves dragged (nodes ! i) \<and> node_extent (nodes ! i) = ExtentNone \<longrightarrow>
           position (fst (updateNodePositions delta dragged nodes) ! i) =
             (fst (position (nodes ! i)) + fst delta, snd (position (nodes ! i)) + snd delta))
        \<and> (\<not> moves dragged (nodes ! i) \<longrightarrow>
           fst (updateNodePositions delta dragged nodes) ! i = nodes ! i))"
proof (intro conjI impI allI)
  assume a: "isFocusable p \<and> selected p \<and> isDraggable p \<and> \<not> disableKeyboardA11y p
      \<and> \<not> isInputDOMNode env ev
      \<and> (key ev \<notin> set (elementSelectionKeys env) \<or> \<not> isSelectable p)"
  {
    assume "key ev = ''ArrowUp''"
    with a show "position_updates (keyDown env p ev) = [((0, -1), shiftKey ev)]"
      by (intro keyDown_arrow) (simp_all add: arrowKeyDiffs_lookup)
  next
    assume "key ev = ''ArrowDown''"
    with a show "position_updates (keyDown env p ev) = [((0, 1), shiftKey ev)]"
      by (intro keyDown_arrow) (simp_all add: arrowKeyDiffs_lookup)
  next
    assume "key ev = ''ArrowLeft''"
    with a show "position_updates (keyDown env p ev) = [((-1, 0), shiftKey ev)]"
      by (intro keyDown_arrow) (simp_all add: arrowKeyDiffs_lookup)
  next
    assume "key ev = ''ArrowRight''"
    with a show "position_updates (keyDown env p ev) = [((1, 0), shiftKey ev)]"
      by (intro keyDown_arrow) (simp_all add: arrowKeyDiffs_lookup)
  }
next
  assume "key ev' \<notin> {''ArrowUp'', ''ArrowDown'', ''ArrowLeft'', ''ArrowRight''}"
  then show "position_updates (keyDown env' p' ev') = []"
    by (intro keyDown_other_key) (simp add: arrowKeyDiffs_lookup)
next
  show "length (fst (updateNodePositions delta dragged nodes)) = length nodes"
    by (simp add: updateNodePositions_def Let_def)
next
  fix i
  assume i: "i < length nodes"
  {
    assume "moves dragged (nodes ! i)"
    with i show "fst (updateNodePositions delta dragged nodes) ! i =
             (nodes ! i)\<lparr>position :=
                clamp_to_extent (node_map nodes) (nodes ! i)
                  (fst (position (nodes ! i)) + fst delta,
                   snd (position (nodes ! i)) + snd delta)\<rparr>"
      by (simp add: updateNodePositions_nth)
  next
    assume "moves dragged (nodes ! i) \<and> node_extent (nodes ! i) = ExtentNone"
    with i show "position (fst (updateNodePositions delta dragged nodes) ! i) =
             (fst (position (nodes ! i)) + fst delta, snd (position (nodes ! i)) + snd delta)"
      by (simp add: updateNodePositions_nth clamp_to_extent_def extent_box_def)
  next
    assume "\<not> moves dragged (nodes ! i)"
    with i show "fst (updateNodePositions delta dragged nodes) ! i = nodes ! i"
      by (simp add: updateNodePositions_nth)
  }
qed

text \<open>
  The theorem at ArrowUp on the example node, and at the example graph, where nodes 1
  and 2 are selected and draggable and node 3 is not selected.
\<close>

theorem arrow_key_unit_delta_witness:
  "position_updates (keyDown example_imports example_props arrow_up) = [((0, -1), False)]
   \<and> map position (fst (updateNodePositions (0, -1) ''1'' example_graph)) =
       [(10, 19), (300, -1), (0, 200)]"
proof -
  note inst = arrow_key_unit_delta
    [where p = example_props and env = example_imports and ev = arrow_up
       and ev' = arrow_up and env' = example_imports and p' = example_props
       and delta = "(0, -1)" and dragged = "''1''" and nodes = example_graph]
  have pre: "isFocusable example_props \<and> selected example_props \<and> isDraggable example_props
      \<and> \<not> disableKeyboardA11y example_props \<and> \<not> isInputDOMNode example_imports arrow_up
      \<and> (key arrow_up \<notin> set (elementSelectionKeys example_imports)
          \<or> \<not> isSelectable example_props)"
    by (simp add: example_props_def example_imports_def arrow_up_def)
  have up: "key arrow_up = ''ArrowUp''" and shift: "shiftKey arrow_up = False"
    by (simp_all add: arrow_up_def)
  from inst pre up shift
  have keys: "position_updates (keyDown example_imports example_props arrow_up) = [((0, -1), False)]"
    by simp
  let ?after = "fst (updateNodePositions (0, -1) ''1'' example_graph)"
  have len: "length example_graph = 3"
    by (simp add: example_graph_def)
  from inst have len': "length ?after = 3"
    using len by simp
  from inst have each: "\<forall>i < length example_graph.
        (moves ''1'' (example_graph ! i) \<and> node_extent (example_graph ! i) = ExtentNone \<longrightarrow>
           position (?after ! i) =
             (fst (position (example_graph ! i)) + fst (0, -1 :: real),
              snd (position (example_graph ! i)) + snd (0 :: real, -1)))
        \<and> (\<not> moves ''1'' (example_graph ! i) \<longrightarrow> ?after ! i = example_graph ! i)"
    by blast
  have p0: "position (?after ! 0) = (10, 19)"
    using each [rule_format, of 0] by (simp add: example_graph_def moves_def)
  have p1: "position (?after ! 1) = (300, -1)"
    using each [rule_format, of 1] by (simp add: example_graph_def moves_def)
  have p2: "position (?after ! Suc (Suc 0)) = (0, 200)"
    using each [rule_format, of "Suc (Suc 0)"] by (simp add: example_graph_def moves_def)
  have "map position ?after = [(10, 19), (300, -1), (0, 200)]"
    using len' p0 p1 p2 by (auto simp: list_eq_iff_nth_eq less_Suc_eq numeral_3_eq_3)
  with keys show ?thesis by simp
qed

section \<open>Theorems: reporting measured dimensions\<close>





















section \<open>Theorems: the step edge router\<close>

text \<open>
  C9. Whatever the decision table and the corner radius: when both handles face the same
  direction and the two points are aligned on the perpendicular axis, the smooth step
  path, and so the step path, is the single segment from the source to the target.
\<close>

theorem same_facing_aligned_is_straight:
  assumes "srcFacing = tgtFacing"
    and "aligned_on_perpendicular_axis srcFacing src tgt"
  shows "path_points (getSmoothStepPath table src srcFacing tgt tgtFacing r) =
           [src, tgt]
         \<and> path_points (getStepPath table src srcFacing tgt tgtFacing) =
           [src, tgt]"
  using assms by (simp add: getSmoothStepPath_def getStepPath_def)

text \<open>
  The regression case of the specification: a source facing right at (0,50) and a
  target facing right at (200,50), with a table that would bend twice.
\<close>

theorem same_facing_aligned_is_straight_witness:
  "path_points (getSmoothStepPath always_two_bends (0, 50) Right (200, 50) Right 5) =
     [(0, 50), (200, 50)]
   \<and> path_points (getStepPath always_two_bends (0, 50) Right (200, 50) Right) =
     [(0, 50), (200, 50)]"
  using same_facing_aligned_is_straight
    [of Right Right "(0, 50)" "(200, 50)" always_two_bends 5]
  by (simp add: aligned_on_perpendicular_axis_def)

end
